theory Spec2Isabelle
  imports Main "HOL-Library.Sublist"
begin

section \<open>Python values, exceptions and the built-ins the collector calls\<close>

text \<open>
  The collector \<^verbatim>\<open>tplswitch_infocollector.py\<close> is modelled function by function.
  A text (\<^verbatim>\<open>response.text\<close>) is a \<^typ>\<open>string\<close>: a list of characters, each read as
  a code point below 256.  On that range the classes of \<^verbatim>\<open>re\<close> for \<^verbatim>\<open>str\<close> patterns
  are: \<^verbatim>\<open>\d\<close> the ten ASCII digits, \<^verbatim>\<open>\w\<close> the alphanumeric code points and the
  underscore, \<^verbatim>\<open>[\s\S]\<close> every character.  Python integers are unbounded and are
  values of \<^typ>\<open>int\<close>.  An exception is a value \<open>Inl e\<close> of the result type.
\<close>

datatype error =
    AttributeError \<comment> \<open>\<^verbatim>\<open>.group\<close> called on the \<^verbatim>\<open>None\<close> of a failed \<^verbatim>\<open>re.search\<close>: pattern not found\<close>
  | ValueError \<comment> \<open>\<^verbatim>\<open>int()\<close> of a token that is no integer literal: malformed literal\<close>
  | IndexError \<comment> \<open>list index out of range\<close>
  | KeyError string \<comment> \<open>missing dictionary key\<close>
  | TypeError
  | JSONDecodeError \<comment> \<open>raised by \<^verbatim>\<open>json.loads\<close>\<close>
  | LoginFailed int \<comment> \<open>\<^verbatim>\<open>Exception(f'Login failed. HTTP Status Code: {code}')\<close>\<close>
  | RequestException \<comment> \<open>any exception of \<^verbatim>\<open>requests\<close>: the transport failed\<close>
  | OutOfModel \<comment> \<open>no Python exception: the input leaves the modelled fragment\<close>

text \<open>
  A Python object as the collector handles them: \<^verbatim>\<open>None\<close>, \<^verbatim>\<open>bool\<close>, \<^verbatim>\<open>int\<close>, \<^verbatim>\<open>str\<close>,
  \<^verbatim>\<open>list\<close> and \<^verbatim>\<open>dict\<close> with string keys (insertion ordered).  These are also the values
  of the \<^verbatim>\<open>json\<close> module, but for \<^verbatim>\<open>float\<close>, which the model leaves out.
\<close>

datatype pyval =
    PNone
  | PBool bool
  | PInt int
  | PStr string
  | PList "pyval list"
  | PDict "(string \<times> pyval) list"

definition bind_res :: "error + 'a \<Rightarrow> ('a \<Rightarrow> error + 'b) \<Rightarrow> error + 'b" where
  "bind_res m f = (case m of Inl e \<Rightarrow> Inl e | Inr x \<Rightarrow> f x)"

subsection \<open>Character classes\<close>

definition is_digit :: "char \<Rightarrow> bool" where
  "is_digit c = (48 \<le> (of_char c :: nat) \<and> (of_char c :: nat) \<le> 57)"

definition digit_val :: "char \<Rightarrow> int" where
  "digit_val c = int (of_char c) - 48"

text \<open>\<^verbatim>\<open>\w\<close> of a \<^verbatim>\<open>str\<close> pattern, on the code points below 256.\<close>

definition is_word :: "char \<Rightarrow> bool" where
  "is_word c =
    (let n = (of_char c :: nat) in
       (48 \<le> n \<and> n \<le> 57) \<or> (65 \<le> n \<and> n \<le> 90) \<or> n = 95 \<or> (97 \<le> n \<and> n \<le> 122) \<or>
       n = 170 \<or> n = 178 \<or> n = 179 \<or> n = 181 \<or> n = 185 \<or> n = 186 \<or>
       (188 \<le> n \<and> n \<le> 190) \<or> (192 \<le> n \<and> n \<le> 214) \<or> (216 \<le> n \<and> n \<le> 246) \<or>
       248 \<le> n)"

text \<open>
  The white space \<^verbatim>\<open>int()\<close> strips from both ends of a \<^verbatim>\<open>str\<close>: tab, line feed,
  vertical tab, form feed, carriage return, space, and (turned into spaces first)
  the next-line control and the no-break space.
\<close>

definition is_int_space :: "char \<Rightarrow> bool" where
  "is_int_space c =
    (let n = (of_char c :: nat) in (9 \<le> n \<and> n \<le> 13) \<or> n = 32 \<or> n = 133 \<or> n = 160)"

subsection \<open>\<^verbatim>\<open>int(str)\<close>, \<^verbatim>\<open>str.split\<close>, list indexing, dictionary update\<close>

fun no_double_underscore :: "string \<Rightarrow> bool" where
  "no_double_underscore (a # b # r) =
     (if a = CHR ''_'' \<and> b = CHR ''_'' then False else no_double_underscore (b # r))"
| "no_double_underscore r = True"

text \<open>
  The digit part of a base-10 literal: not empty, digits with single underscores
  between them.
\<close>

definition int_digits_ok :: "string \<Rightarrow> bool" where
  "int_digits_ok b =
    (b \<noteq> [] \<and> list_all (\<lambda>c. is_digit c \<or> c = CHR ''_'') b \<and>
     is_digit (hd b) \<and> is_digit (last b) \<and> no_double_underscore b)"

definition int_of_digits :: "string \<Rightarrow> int" where
  "int_of_digits ds = foldl (\<lambda>a c. 10 * a + digit_val c) 0 ds"

definition strip_int_space :: "string \<Rightarrow> string" where
  "strip_int_space s = rev (dropWhile is_int_space (rev (dropWhile is_int_space s)))"

definition py_int :: "string \<Rightarrow> error + int" where
  "py_int s =
    (let t = strip_int_space s;
         signed = (t \<noteq> [] \<and> (hd t = CHR ''-'' \<or> hd t = CHR ''+''));
         b = (if signed then tl t else t)
     in if int_digits_ok b
        then Inr ((if t \<noteq> [] \<and> hd t = CHR ''-'' then - 1 else 1) * int_of_digits (filter is_digit b))
        else Inl ValueError)"

text \<open>\<^verbatim>\<open>s.split(sep)\<close> for a one-character separator: never the empty list.\<close>

fun split :: "char \<Rightarrow> string \<Rightarrow> string list" where
  "split sep [] = [[]]"
| "split sep (c # cs) =
     (if c = sep then [] # split sep cs
      else (c # hd (split sep cs)) # tl (split sep cs))"

text \<open>\<^verbatim>\<open>list(map(int, tokens))\<close>: the first token that is no literal raises.\<close>

fun map_int :: "string list \<Rightarrow> error + int list" where
  "map_int [] = Inr []"
| "map_int (t # ts) =
     bind_res (py_int t) (\<lambda>x. bind_res (map_int ts) (\<lambda>xs. Inr (x # xs)))"

text \<open>
  \<^verbatim>\<open>xs[i]\<close> on a list: a negative index counts from the end, and an index outside
  \<open>-len .. len-1\<close> raises \<^verbatim>\<open>IndexError\<close>.
\<close>

definition py_index :: "'a list \<Rightarrow> int \<Rightarrow> error + 'a" where
  "py_index xs i =
    (let n = int (length xs); j = (if i < 0 then i + n else i)
     in if 0 \<le> j \<and> j < n then Inr (xs ! nat j) else Inl IndexError)"

text \<open>\<^verbatim>\<open>d[k] = v\<close> on an insertion-ordered dictionary.\<close>

fun dict_set :: "('k \<times> 'v) list \<Rightarrow> 'k \<Rightarrow> 'v \<Rightarrow> ('k \<times> 'v) list" where
  "dict_set [] k v = [(k, v)]"
| "dict_set ((k', v') # d) k v =
     (if k' = k then (k', v) # d else (k', v') # dict_set d k v)"

text \<open>\<^verbatim>\<open>d[k]\<close> on a dictionary.\<close>

fun dict_get :: "(string \<times> 'v) list \<Rightarrow> string \<Rightarrow> error + 'v" where
  "dict_get [] k = Inl (KeyError k)"
| "dict_get ((k', v') # d) k = (if k' = k then Inr v' else dict_get d k)"

section \<open>The regular expressions of \<^verbatim>\<open>SwitchTPLParser\<close>\<close>

text \<open>
  \<^verbatim>\<open>re.search(p, text)\<close> tries the pattern at position 0, 1, ... up to the end of the
  text and returns the first match.  \<open>re_search m text\<close> does so for a matcher \<open>m\<close>
  that, given the text from a position on, returns group 1 of the match there.
\<close>

fun re_search :: "(string \<Rightarrow> 'a option) \<Rightarrow> string \<Rightarrow> 'a option" where
  "re_search m [] = m []"
| "re_search m (c # cs) =
     (case m (c # cs) of Some g \<Rightarrow> Some g | None \<Rightarrow> re_search m cs)"

text \<open>\<^verbatim>\<open>.group(1)\<close> of the result of \<^verbatim>\<open>re.search\<close>.\<close>

definition group1 :: "'a option \<Rightarrow> error + 'a" where
  "group1 r = (case r of None \<Rightarrow> Inl AttributeError | Some g \<Rightarrow> Inr g)"

definition strip_prefix :: "string \<Rightarrow> string \<Rightarrow> string option" where
  "strip_prefix p s = (if prefix p s then Some (drop (length p) s) else None)"

text \<open>
  \<^verbatim>\<open>([\s\S]*?)\<close> followed by the rest of a pattern: the shortest run of arbitrary
  characters after which the rest of the pattern matches (\<open>k\<close> decides that on the
  text that remains).
\<close>

fun lazy_any :: "(string \<Rightarrow> bool) \<Rightarrow> string \<Rightarrow> string option" where
  "lazy_any k [] = (if k [] then Some [] else None)"
| "lazy_any k (c # cs) =
     (if k (c # cs) then Some [] else map_option ((#) c) (lazy_any k cs))"

text \<open>\<^verbatim>\<open>var max_port_num = (\d);\<close>\<close>

definition match_max_port_num :: "string \<Rightarrow> string option" where
  "match_max_port_num s =
    (case strip_prefix ''var max_port_num = '' s of
       None \<Rightarrow> None
     | Some r \<Rightarrow>
        (case r of
           d # e # _ \<Rightarrow> if is_digit d \<and> e = CHR '';'' then Some [d] else None
         | _ \<Rightarrow> None))"

text \<open>\<^verbatim>\<open>state:\[([\s\S]*?)\],\<close>\<close>

definition match_state :: "string \<Rightarrow> string option" where
  "match_state s =
    (case strip_prefix ''state:['' s of
       None \<Rightarrow> None
     | Some r \<Rightarrow> lazy_any (prefix ''],'') r)"

text \<open>\<^verbatim>\<open>link_status:\[([\s\S]*?)\],\<close>\<close>

definition match_link_status :: "string \<Rightarrow> string option" where
  "match_link_status s =
    (case strip_prefix ''link_status:['' s of
       None \<Rightarrow> None
     | Some r \<Rightarrow> lazy_any (prefix ''],'') r)"

text \<open>\<^verbatim>\<open>pkts:\[([\s\S]*?)\]\<close>\<close>

definition match_pkts :: "string \<Rightarrow> string option" where
  "match_pkts s =
    (case strip_prefix ''pkts:['' s of
       None \<Rightarrow> None
     | Some r \<Rightarrow> lazy_any (prefix '']'') r)"

section \<open>\<^verbatim>\<open>SwitchTPLParser.parse_ports_info\<close>\<close>

definition state_info :: "string list" where
  "state_info = [''Disabled'', ''Enabled'']"

definition link_info :: "string list" where
  "link_info =
    [''Link Down'', ''Auto'', ''10Half'', ''10Full'', ''100Half'', ''100Full'', ''1000Full'', '''']"

text \<open>
  The body of the \<^verbatim>\<open>for index in range(max_port_num)\<close> loop, for the indices still to
  visit; \<open>ports_info\<close> is the dictionary built so far, keyed by \<open>port_id\<close>.
\<close>

fun ports_loop ::
  "int list \<Rightarrow> int list \<Rightarrow> int list \<Rightarrow> nat list \<Rightarrow> (int \<times> pyval) list \<Rightarrow>
   error + (int \<times> pyval) list" where
  "ports_loop state link_status pkts [] ports_info = Inr ports_info"
| "ports_loop state link_status pkts (index # rest) ports_info =
     bind_res (py_index state (int index)) (\<lambda>s.
     bind_res (py_index state_info s) (\<lambda>status.
     bind_res (py_index link_status (int index)) (\<lambda>l.
     bind_res (py_index link_info l) (\<lambda>link.
     bind_res (py_index pkts (4 * int index)) (\<lambda>txgood.
     bind_res (py_index pkts (4 * int index + 1)) (\<lambda>txbad.
     bind_res (py_index pkts (4 * int index + 2)) (\<lambda>rxgood.
     bind_res (py_index pkts (4 * int index + 3)) (\<lambda>rxbad.
       ports_loop state link_status pkts rest
         (dict_set ports_info (int index + 1)
            (PDict [(''status'', PStr status), (''link-status'', PStr link),
                    (''txgoodpkt'', PInt txgood), (''txbadpkt'', PInt txbad),
                    (''rxgoodpkt'', PInt rxgood), (''rxbadpkt'', PInt rxbad)]))))))))))"

text \<open>The four extraction lines of \<^verbatim>\<open>parse_ports_info\<close>, one definition each.\<close>

definition find_max_port_num :: "string \<Rightarrow> error + int" where
  "find_max_port_num response_text =
     bind_res (group1 (re_search match_max_port_num response_text)) py_int"

definition find_state :: "string \<Rightarrow> error + int list" where
  "find_state response_text =
     bind_res (group1 (re_search match_state response_text)) (\<lambda>g. map_int (split CHR '','' g))"

definition find_link_status :: "string \<Rightarrow> error + int list" where
  "find_link_status response_text =
     bind_res (group1 (re_search match_link_status response_text))
       (\<lambda>g. map_int (split CHR '','' g))"

definition find_pkts :: "string \<Rightarrow> error + int list" where
  "find_pkts response_text =
     bind_res (group1 (re_search match_pkts response_text)) (\<lambda>g. map_int (split CHR '','' g))"

definition parse_ports_info :: "string \<Rightarrow> error + (int \<times> pyval) list" where
  "parse_ports_info response_text =
     bind_res (find_max_port_num response_text) (\<lambda>max_port_num.
     bind_res (find_state response_text) (\<lambda>state.
     bind_res (find_link_status response_text) (\<lambda>link_status.
     bind_res (find_pkts response_text) (\<lambda>pkts.
       ports_loop state link_status pkts [0 ..< nat max_port_num] []))))"

section \<open>\<^verbatim>\<open>SwitchTPLParser.parse_system_info\<close>\<close>

subsection \<open>The two regular expressions\<close>

text \<open>\<^verbatim>\<open>$\<close> under \<^verbatim>\<open>re.MULTILINE\<close>: at the end of the text or just before a line feed.\<close>

definition at_line_end :: "string \<Rightarrow> bool" where
  "at_line_end t = (case t of [] \<Rightarrow> True | c # _ \<Rightarrow> c = CHR 0x0A)"

text \<open>\<^verbatim>\<open>var info_ds = (\{[\s\S]*?\});$\<close> with \<^verbatim>\<open>re.MULTILINE\<close>; group 1 has both braces.\<close>

definition match_info_ds :: "string \<Rightarrow> string option" where
  "match_info_ds s =
    (case strip_prefix ''var info_ds = {'' s of
       None \<Rightarrow> None
     | Some r \<Rightarrow>
         map_option (\<lambda>b. ''{'' @ b @ ''}'')
           (lazy_any (\<lambda>t. prefix ''};'' t \<and> at_line_end (drop 2 t)) r))"

text \<open>
  \<^verbatim>\<open>re.sub(r'^(\w+):', r'"\1":', s, flags=re.MULTILINE)\<close>.  The scan goes left to
  right; \<open>bol\<close> says that the position is the start of the text or follows a line
  feed, where \<^verbatim>\<open>^\<close> matches.  There the longest run of word characters is taken,
  and the pattern matches when the run is not empty and a colon follows it.
\<close>

function sub_keys :: "bool \<Rightarrow> string \<Rightarrow> string" where
  "sub_keys bol [] = []"
| "sub_keys bol (c # cs) =
     (if bol \<and> takeWhile is_word (c # cs) \<noteq> [] \<and>
         dropWhile is_word (c # cs) \<noteq> [] \<and> hd (dropWhile is_word (c # cs)) = CHR '':''
      then [CHR 0x22] @ takeWhile is_word (c # cs) @ [CHR 0x22] @ '':'' @
           sub_keys False (tl (dropWhile is_word (c # cs)))
      else c # sub_keys (c = CHR 0x0A) cs)"
  by pat_completeness auto
termination
proof (relation "measure (\<lambda>(bol, s). length s)")
  show "wf (measure (\<lambda>(bol, s). length s))" by simp
next
  fix bol :: bool and c :: char and cs :: string
  assume "bol \<and> takeWhile is_word (c # cs) \<noteq> [] \<and>
          dropWhile is_word (c # cs) \<noteq> [] \<and> hd (dropWhile is_word (c # cs)) = CHR '':''"
  then have ne: "dropWhile is_word (c # cs) \<noteq> []" by simp
  have "length (dropWhile is_word (c # cs)) \<le> length (c # cs)"
    by (rule length_dropWhile_le)
  moreover have "length (tl (dropWhile is_word (c # cs))) < length (dropWhile is_word (c # cs))"
    using ne by (cases "dropWhile is_word (c # cs)") simp_all
  ultimately show "((False, tl (dropWhile is_word (c # cs))), (bol, c # cs))
      \<in> measure (\<lambda>(bol, s). length s)"
    by simp
next
  fix bol :: bool and c :: char and cs :: string
  show "((c = CHR 0x0A, cs), (bol, c # cs)) \<in> measure (\<lambda>(bol, s). length s)"
    by simp
qed

subsection \<open>\<^verbatim>\<open>json.loads\<close>\<close>

text \<open>
  The decoder of the \<^verbatim>\<open>json\<close> module in its default configuration (strict strings).
  Two kinds of input leave the modelled fragment and give \<open>OutOfModel\<close>: numbers
  with a fraction or an exponent and the constants \<^verbatim>\<open>NaN\<close>, \<^verbatim>\<open>Infinity\<close> (Python reads
  a \<^verbatim>\<open>float\<close>), and \<^verbatim>\<open>\uXXXX\<close> escapes of a code point above 255.
\<close>

definition is_json_ws :: "char \<Rightarrow> bool" where
  "is_json_ws c = (c = CHR '' '' \<or> c = CHR 0x09 \<or> c = CHR 0x0A \<or> c = CHR 0x0D)"

definition skip_ws :: "string \<Rightarrow> string" where
  "skip_ws s = dropWhile is_json_ws s"

definition hex_val :: "char \<Rightarrow> nat option" where
  "hex_val c =
    (let n = (of_char c :: nat) in
       if 48 \<le> n \<and> n \<le> 57 then Some (n - 48)
       else if 97 \<le> n \<and> n \<le> 102 then Some (n - 87)
       else if 65 \<le> n \<and> n \<le> 70 then Some (n - 55)
       else None)"

definition hex4 :: "char \<Rightarrow> char \<Rightarrow> char \<Rightarrow> char \<Rightarrow> nat option" where
  "hex4 a b c d =
    (case (hex_val a, hex_val b, hex_val c, hex_val d) of
       (Some x, Some y, Some z, Some w) \<Rightarrow> Some (((x * 16 + y) * 16 + z) * 16 + w)
     | _ \<Rightarrow> None)"

text \<open>The character a one-letter escape stands for.\<close>

definition unescape :: "char \<Rightarrow> char option" where
  "unescape e =
    (if e = CHR 0x22 then Some (CHR 0x22)
     else if e = CHR 0x5C then Some (CHR 0x5C)
     else if e = CHR ''/'' then Some (CHR ''/'')
     else if e = CHR ''b'' then Some (CHR 0x08)
     else if e = CHR ''f'' then Some (CHR 0x0C)
     else if e = CHR ''n'' then Some (CHR 0x0A)
     else if e = CHR ''r'' then Some (CHR 0x0D)
     else if e = CHR ''t'' then Some (CHR 0x09)
     else None)"

definition cons_res :: "char \<Rightarrow> error + (string \<times> string) \<Rightarrow> error + (string \<times> string)" where
  "cons_res c m = bind_res m (\<lambda>(s, r). Inr (c # s, r))"

text \<open>
  \<open>scanstring\<close> reads a string literal from just after its opening quote and
  returns the decoded string and the text after the closing quote.
\<close>

fun scanstring :: "string \<Rightarrow> error + (string \<times> string)" where
  "scanstring [] = Inl JSONDecodeError"
| "scanstring (c # cs) =
     (if c = CHR 0x22 then Inr ([], cs)
      else if c = CHR 0x5C then
        (case cs of
           [] \<Rightarrow> Inl JSONDecodeError
         | e # r \<Rightarrow>
            if e = CHR ''u'' then
              (case r of
                 h1 # h2 # h3 # h4 # r' \<Rightarrow>
                   (case hex4 h1 h2 h3 h4 of
                      None \<Rightarrow> Inl JSONDecodeError
                    | Some n \<Rightarrow>
                        if n < 256 then cons_res (char_of n) (scanstring r')
                        else Inl OutOfModel)
               | _ \<Rightarrow> Inl JSONDecodeError)
            else
              (case unescape e of
                 None \<Rightarrow> Inl JSONDecodeError
               | Some d \<Rightarrow> cons_res d (scanstring r)))
      else if (of_char c :: nat) < 32 then Inl JSONDecodeError
      else cons_res c (scanstring cs))"

text \<open>
  The number at the start of the text, after
  \<^verbatim>\<open>(-?(?:0|[1-9][0-9]*))(\.[0-9]+)?([eE][-+]?[0-9]+)?\<close>: the integer part and the text
  after it, and whether a fraction or an exponent follows.
\<close>

definition match_integer :: "string \<Rightarrow> (string \<times> string) option" where
  "match_integer s =
    (let neg = (s \<noteq> [] \<and> hd s = CHR ''-'');
         r = (if neg then tl s else s);
         sign = (if neg then [CHR ''-''] else [])
     in case r of
          [] \<Rightarrow> None
        | d # r' \<Rightarrow>
            if d = CHR ''0'' then Some (sign @ [d], r')
            else if is_digit d then Some (sign @ d # takeWhile is_digit r', dropWhile is_digit r')
            else None)"

definition has_frac :: "string \<Rightarrow> bool" where
  "has_frac r = (case r of c # d # _ \<Rightarrow> c = CHR ''.'' \<and> is_digit d | _ \<Rightarrow> False)"

definition has_exp :: "string \<Rightarrow> bool" where
  "has_exp r =
    (case r of
       c # d # r' \<Rightarrow>
         (c = CHR ''e'' \<or> c = CHR ''E'') \<and>
         (is_digit d \<or> ((d = CHR ''+'' \<or> d = CHR ''-'') \<and> r' \<noteq> [] \<and> is_digit (hd r')))
     | _ \<Rightarrow> False)"

definition scan_number :: "string \<Rightarrow> error + (pyval \<times> string)" where
  "scan_number s =
    (case match_integer s of
       None \<Rightarrow>
         if prefix ''NaN'' s \<or> prefix ''Infinity'' s \<or> prefix ''-Infinity'' s
         then Inl OutOfModel else Inl JSONDecodeError
     | Some (lexeme, r) \<Rightarrow>
         if has_frac r \<or> has_exp r then Inl OutOfModel
         else bind_res (py_int lexeme) (\<lambda>i. Inr (PInt i, r)))"

text \<open>
  \<open>scan_once\<close> reads one value; \<open>object_items\<close> reads the members of an object from
  just after the opening quote of a key, \<open>array_items\<close> the elements of an array.
  The first argument bounds the number of nested calls; \<open>json_loads\<close> starts with
  more than any text needs.
\<close>

fun scan_once :: "nat \<Rightarrow> string \<Rightarrow> error + (pyval \<times> string)"
  and object_items :: "nat \<Rightarrow> string \<Rightarrow> (string \<times> pyval) list \<Rightarrow> error + (pyval \<times> string)"
  and array_items :: "nat \<Rightarrow> string \<Rightarrow> pyval list \<Rightarrow> error + (pyval \<times> string)" where
  "scan_once 0 s = Inl OutOfModel"
| "scan_once (Suc n) s =
     (case s of
        [] \<Rightarrow> Inl JSONDecodeError
      | c # cs \<Rightarrow>
         if c = CHR 0x22 then bind_res (scanstring cs) (\<lambda>(str, r). Inr (PStr str, r))
         else if c = CHR ''{'' then
           (case skip_ws cs of
              [] \<Rightarrow> Inl JSONDecodeError
            | d # r \<Rightarrow>
               if d = CHR ''}'' then Inr (PDict [], r)
               else if d = CHR 0x22 then object_items n r []
               else Inl JSONDecodeError)
         else if c = CHR ''['' then
           (case skip_ws cs of
              [] \<Rightarrow> Inl JSONDecodeError
            | d # r \<Rightarrow>
               if d = CHR '']'' then Inr (PList [], r)
               else array_items n (d # r) [])
         else if prefix ''null'' s then Inr (PNone, drop 4 s)
         else if prefix ''true'' s then Inr (PBool True, drop 4 s)
         else if prefix ''false'' s then Inr (PBool False, drop 5 s)
         else scan_number s)"
| "object_items 0 s pairs = Inl OutOfModel"
| "object_items (Suc n) s pairs =
     bind_res (scanstring s) (\<lambda>(key, r1).
       case skip_ws r1 of
         [] \<Rightarrow> Inl JSONDecodeError
       | c # r2 \<Rightarrow>
          if c = CHR '':'' then
            bind_res (scan_once n (skip_ws r2)) (\<lambda>(v, r3).
              case skip_ws r3 of
                [] \<Rightarrow> Inl JSONDecodeError
              | d # r4 \<Rightarrow>
                 if d = CHR ''}'' then Inr (PDict (dict_set pairs key v), r4)
                 else if d = CHR '','' then
                   (case skip_ws r4 of
                      [] \<Rightarrow> Inl JSONDecodeError
                    | q # r5 \<Rightarrow>
                       if q = CHR 0x22 then object_items n r5 (dict_set pairs key v)
                       else Inl JSONDecodeError)
                 else Inl JSONDecodeError)
          else Inl JSONDecodeError)"
| "array_items 0 s vals = Inl OutOfModel"
| "array_items (Suc n) s vals =
     bind_res (scan_once n s) (\<lambda>(v, r1).
       case skip_ws r1 of
         [] \<Rightarrow> Inl JSONDecodeError
       | d # r2 \<Rightarrow>
          if d = CHR '']'' then Inr (PList (vals @ [v]), r2)
          else if d = CHR '','' then array_items n (skip_ws r2) (vals @ [v])
          else Inl JSONDecodeError)"

definition json_loads :: "string \<Rightarrow> error + pyval" where
  "json_loads s =
     bind_res (scan_once (2 * length s + 2) (skip_ws s)) (\<lambda>(v, r).
       if skip_ws r = [] then Inr v else Inl JSONDecodeError)"

subsection \<open>The parser method\<close>

definition parse_system_info :: "string \<Rightarrow> error + pyval" where
  "parse_system_info response_text =
     bind_res (group1 (re_search match_info_ds response_text)) (\<lambda>sys_info.
       json_loads (sub_keys True sys_info))"

section \<open>The data model: \<^verbatim>\<open>SwitchTPL\<close> and \<^verbatim>\<open>SwitchPort\<close>\<close>

text \<open>
  Attributes are untyped in the source, so each holds a \<^typ>\<open>pyval\<close>; the constructors
  set the initial values.
\<close>

record SwitchPort =
  port_num :: pyval
  state :: pyval
  link_status :: pyval
  txgoodpkt :: pyval
  txbadpkt :: pyval
  rxgoodpkt :: pyval
  rxbadpkt :: pyval

definition SwitchPort_init :: SwitchPort where
  "SwitchPort_init =
    \<lparr>port_num = PInt 0, state = PInt 0, link_status = PInt 0, txgoodpkt = PInt 0,
     txbadpkt = PInt 0, rxgoodpkt = PInt 0, rxbadpkt = PInt 0\<rparr>"

record SwitchTPL =
  description :: pyval
  mac_address :: pyval
  ip_address :: pyval
  subnet_mask :: pyval
  gateway :: pyval
  firmware :: pyval
  hardware :: pyval
  port_number :: pyval
  ports :: "SwitchPort list"

definition SwitchTPL_init :: SwitchTPL where
  "SwitchTPL_init =
    \<lparr>description = PNone, mac_address = PNone, ip_address = PNone, subnet_mask = PNone,
     gateway = PNone, firmware = PNone, hardware = PNone, port_number = PInt 0, ports = []\<rparr>"

text \<open>\<^verbatim>\<open>SwitchPort.to_dict\<close> and \<^verbatim>\<open>SwitchTPL.to_dict\<close>\<close>

definition SwitchPort_to_dict :: "SwitchPort \<Rightarrow> pyval" where
  "SwitchPort_to_dict self =
    PDict [(''port_num'', port_num self), (''state'', state self),
           (''link_status'', link_status self), (''txgoodpkt'', txgoodpkt self),
           (''txbadpkt'', txbadpkt self), (''rxgoodpkt'', rxgoodpkt self),
           (''rxbadpkt'', rxbadpkt self)]"

definition SwitchTPL_to_dict :: "SwitchTPL \<Rightarrow> pyval" where
  "SwitchTPL_to_dict self =
    PDict [(''description'', description self), (''mac_address'', mac_address self),
           (''ip_address'', ip_address self), (''subnet_mask'', subnet_mask self),
           (''gateway'', gateway self), (''firmware'', firmware self),
           (''hardware'', hardware self),
           (''ports'', PList (map SwitchPort_to_dict (ports self)))]"

section \<open>\<^verbatim>\<open>SwitchTPLDAO\<close>\<close>

text \<open>
  The device is reached through \<^verbatim>\<open>requests\<close>.  What the network answers is a parameter
  of the model: \<open>session_post\<close> is \<^verbatim>\<open>session.post(url, data=data)\<close> on a fresh session,
  which raises or returns the response together with the session as it then is;
  \<open>session_get\<close> is \<^verbatim>\<open>session.get(url)\<close>.
\<close>

record response =
  status_code :: int
  body_text :: string

record 's network =
  session_post :: "string \<Rightarrow> (string \<times> string option) list \<Rightarrow> error + (response \<times> 's)"
  session_get :: "'s \<Rightarrow> string \<Rightarrow> error + response"

text \<open>The attributes \<open>url\<close>, \<open>username\<close> and \<open>password\<close> are \<^verbatim>\<open>None\<close> until the caller sets them.\<close>

record SwitchTPLDAO =
  switch :: SwitchTPL
  url :: "string option"
  username :: "string option"
  password :: "string option"

definition SwitchTPLDAO_init :: SwitchTPLDAO where
  "SwitchTPLDAO_init = \<lparr>switch = SwitchTPL_init, url = None, username = None, password = None\<rparr>"

definition get_switch :: "SwitchTPLDAO \<Rightarrow> SwitchTPL" where
  "get_switch self = switch self"

text \<open>\<^verbatim>\<open>self.url + 'page'\<close>: a \<^verbatim>\<open>TypeError\<close> when the url is \<^verbatim>\<open>None\<close>.\<close>

definition str_add :: "string option \<Rightarrow> string \<Rightarrow> error + string" where
  "str_add a b = (case a of None \<Rightarrow> Inl TypeError | Some s \<Rightarrow> Inr (s @ b))"

definition logon :: "'s network \<Rightarrow> SwitchTPLDAO \<Rightarrow> error + 's" where
  "logon net self =
    (let data = [(''username'', username self), (''password'', password self),
                 (''logon'', Some ''Login'')]
     in bind_res (str_add (url self) ''logon.cgi'') (\<lambda>u.
        bind_res (session_post net u data) (\<lambda>(response, session).
          if status_code response = 200 then Inr session
          else Inl (LoginFailed (status_code response)))))"

text \<open>\<^verbatim>\<open>obj[key]\<close> for a string key: only a dictionary can be indexed so.\<close>

definition py_getitem :: "pyval \<Rightarrow> string \<Rightarrow> error + pyval" where
  "py_getitem obj key = (case obj of PDict d \<Rightarrow> dict_get d key | _ \<Rightarrow> Inl TypeError)"

text \<open>
  A method that mutates the device and may raise in the middle returns the exception,
  if any, and the object as the method left it.

  The seven assignments of \<^verbatim>\<open>sys_info_loader\<close>, in the order of the source: each reads
  its key and then stores the attribute.
\<close>

definition sys_info_fields :: "(string \<times> (pyval \<Rightarrow> SwitchTPL \<Rightarrow> SwitchTPL)) list" where
  "sys_info_fields =
    [(''descriStr'', \<lambda>v sw. sw\<lparr>description := v\<rparr>),
     (''macStr'', \<lambda>v sw. sw\<lparr>mac_address := v\<rparr>),
     (''ipStr'', \<lambda>v sw. sw\<lparr>ip_address := v\<rparr>),
     (''netmaskStr'', \<lambda>v sw. sw\<lparr>subnet_mask := v\<rparr>),
     (''gatewayStr'', \<lambda>v sw. sw\<lparr>gateway := v\<rparr>),
     (''firmwareStr'', \<lambda>v sw. sw\<lparr>firmware := v\<rparr>),
     (''hardwareStr'', \<lambda>v sw. sw\<lparr>hardware := v\<rparr>)]"

fun assign_fields ::
  "(string \<times> (pyval \<Rightarrow> SwitchTPL \<Rightarrow> SwitchTPL)) list \<Rightarrow> pyval \<Rightarrow> SwitchTPL \<Rightarrow>
   error option \<times> SwitchTPL" where
  "assign_fields [] sys_info sw = (None, sw)"
| "assign_fields ((key, store) # rest) sys_info sw =
     (case py_getitem sys_info key of
        Inl e \<Rightarrow> (Some e, sw)
      | Inr v \<Rightarrow> assign_fields rest sys_info (store v sw))"

definition sys_info_loader :: "'s network \<Rightarrow> SwitchTPLDAO \<Rightarrow> 's \<Rightarrow> error option \<times> SwitchTPLDAO" where
  "sys_info_loader net self session =
    (case bind_res (str_add (url self) ''SystemInfoRpm.htm'') (session_get net session) of
       Inl e \<Rightarrow> (Some e, self)
     | Inr response \<Rightarrow>
        (case parse_system_info (body_text response) of
           Inl e \<Rightarrow> (Some e, self)
         | Inr sys_info \<Rightarrow>
            (case assign_fields sys_info_fields sys_info (switch self) of
               (r, sw) \<Rightarrow> (r, self\<lparr>switch := sw\<rparr>))))"

text \<open>
  The body of the loop of \<^verbatim>\<open>ports_info_loader\<close>: a new \<^verbatim>\<open>SwitchPort\<close> gets its seven
  attributes, the last six read from the port's dictionary.
\<close>

definition new_port :: "int \<Rightarrow> pyval \<Rightarrow> error + SwitchPort" where
  "new_port port_id port_data =
     bind_res (py_getitem port_data ''status'') (\<lambda>v1.
     bind_res (py_getitem port_data ''link-status'') (\<lambda>v2.
     bind_res (py_getitem port_data ''txgoodpkt'') (\<lambda>v3.
     bind_res (py_getitem port_data ''txbadpkt'') (\<lambda>v4.
     bind_res (py_getitem port_data ''rxgoodpkt'') (\<lambda>v5.
     bind_res (py_getitem port_data ''rxbadpkt'') (\<lambda>v6.
       Inr (SwitchPort_init\<lparr>port_num := PInt port_id, state := v1, link_status := v2,
              txgoodpkt := v3, txbadpkt := v4, rxgoodpkt := v5, rxbadpkt := v6\<rparr>)))))))"

fun append_ports :: "(int \<times> pyval) list \<Rightarrow> SwitchTPL \<Rightarrow> error option \<times> SwitchTPL" where
  "append_ports [] sw = (None, sw)"
| "append_ports ((port_id, port_data) # rest) sw =
     (case new_port port_id port_data of
        Inl e \<Rightarrow> (Some e, sw)
      | Inr port \<Rightarrow> append_ports rest (sw\<lparr>ports := ports sw @ [port]\<rparr>))"

definition ports_info_loader :: "'s network \<Rightarrow> SwitchTPLDAO \<Rightarrow> 's \<Rightarrow> error option \<times> SwitchTPLDAO" where
  "ports_info_loader net self session =
    (case bind_res (str_add (url self) ''PortStatisticsRpm.htm'') (session_get net session) of
       Inl e \<Rightarrow> (Some e, self)
     | Inr response \<Rightarrow>
        (case parse_ports_info (body_text response) of
           Inl e \<Rightarrow> (Some e, self)
         | Inr ports_info \<Rightarrow>
            (case append_ports ports_info ((switch self)\<lparr>ports := []\<rparr>) of
               (r, sw) \<Rightarrow> (r, self\<lparr>switch := sw\<rparr>))))"

section \<open>\<^verbatim>\<open>json.dumps(obj, indent=4)\<close>\<close>

text \<open>
  The encoder of the \<^verbatim>\<open>json\<close> module as the script calls it: four spaces per level,
  \<^verbatim>\<open>,\<close> between items, \<^verbatim>\<open>: \<close> after a key, and every character outside the printable
  ASCII range escaped.
\<close>

function show_nat :: "nat \<Rightarrow> string" where
  "show_nat n =
     (if n < 10 then [char_of (48 + n)] else show_nat (n div 10) @ [char_of (48 + n mod 10)])"
  by pat_completeness auto
termination
  by (relation "measure (\<lambda>n. n)") auto

definition int_repr :: "int \<Rightarrow> string" where
  "int_repr i = (if i < 0 then CHR ''-'' # show_nat (nat (- i)) else show_nat (nat i))"

definition hex_digit :: "nat \<Rightarrow> char" where
  "hex_digit n = (if n < 10 then char_of (48 + n) else char_of (87 + n))"

definition escape_char :: "char \<Rightarrow> string" where
  "escape_char c =
    (let n = (of_char c :: nat) in
       if c = CHR 0x22 then [CHR 0x5C, CHR 0x22]
       else if c = CHR 0x5C then [CHR 0x5C, CHR 0x5C]
       else if c = CHR 0x0A then [CHR 0x5C, CHR ''n'']
       else if c = CHR 0x0D then [CHR 0x5C, CHR ''r'']
       else if c = CHR 0x09 then [CHR 0x5C, CHR ''t'']
       else if c = CHR 0x08 then [CHR 0x5C, CHR ''b'']
       else if c = CHR 0x0C then [CHR 0x5C, CHR ''f'']
       else if n < 32 \<or> 126 < n then
         [CHR 0x5C, CHR ''u'', CHR ''0'', CHR ''0'', hex_digit (n div 16), hex_digit (n mod 16)]
       else [c])"

definition encode_basestring_ascii :: "string \<Rightarrow> string" where
  "encode_basestring_ascii s = [CHR 0x22] @ concat (map escape_char s) @ [CHR 0x22]"

definition newline_indent :: "nat \<Rightarrow> string" where
  "newline_indent level = CHR 0x0A # replicate (4 * level) (CHR '' '')"

text \<open>
  \<open>iterencode level v\<close> is the text of \<open>v\<close> at nesting depth \<open>level\<close>; \<open>iterencode_list\<close>
  and \<open>iterencode_dict\<close> write the items of a non-empty container, which stand at depth
  \<open>level\<close>.
\<close>

fun iterencode :: "nat \<Rightarrow> pyval \<Rightarrow> string"
  and iterencode_list :: "nat \<Rightarrow> pyval list \<Rightarrow> string"
  and iterencode_dict :: "nat \<Rightarrow> (string \<times> pyval) list \<Rightarrow> string" where
  "iterencode level PNone = ''null''"
| "iterencode level (PBool b) = (if b then ''true'' else ''false'')"
| "iterencode level (PInt i) = int_repr i"
| "iterencode level (PStr s) = encode_basestring_ascii s"
| "iterencode level (PList vs) =
     (if vs = [] then ''[]''
      else ''['' @ newline_indent (Suc level) @ iterencode_list (Suc level) vs @
           newline_indent level @ '']'')"
| "iterencode level (PDict kvs) =
     (if kvs = [] then ''{}''
      else ''{'' @ newline_indent (Suc level) @ iterencode_dict (Suc level) kvs @
           newline_indent level @ ''}'')"
| "iterencode_list level [] = []"
| "iterencode_list level (v # vs) =
     iterencode level v @
     (if vs = [] then [] else '','' @ newline_indent level @ iterencode_list level vs)"
| "iterencode_dict level [] = []"
| "iterencode_dict level ((k, v) # kvs) =
     encode_basestring_ascii k @ '': '' @ iterencode level v @
     (if kvs = [] then [] else '','' @ newline_indent level @ iterencode_dict level kvs)"

definition json_dumps :: "pyval \<Rightarrow> string" where
  "json_dumps obj = iterencode 0 obj"

section \<open>Notions used to state the properties\<close>

text \<open>
  The entry that the loop of \<open>parse_ports_info\<close> stores for index \<open>i\<close> when every lookup
  succeeds with a non-negative index.
\<close>

definition port_entry :: "int list \<Rightarrow> int list \<Rightarrow> int list \<Rightarrow> nat \<Rightarrow> int \<times> pyval" where
  "port_entry st ln pk i =
    (int i + 1,
     PDict [(''status'', PStr (state_info ! nat (st ! i))),
            (''link-status'', PStr (link_info ! nat (ln ! i))),
            (''txgoodpkt'', PInt (pk ! (4 * i))), (''txbadpkt'', PInt (pk ! (4 * i + 1))),
            (''rxgoodpkt'', PInt (pk ! (4 * i + 2))), (''rxbadpkt'', PInt (pk ! (4 * i + 3)))])"

text \<open>The positions of a text at which a literal occurs.\<close>

definition occurrences :: "string \<Rightarrow> string \<Rightarrow> nat list" where
  "occurrences lit s = filter (\<lambda>i. prefix lit (drop i s)) [0 ..< Suc (length s)]"

text \<open>
  The attributes that \<open>sys_info_loader\<close> assigns, in the order of its assignments, and
  the number of leading keys of that order that a parsed mapping holds.
\<close>

definition sys_info_attrs :: "(SwitchTPL \<Rightarrow> pyval) list" where
  "sys_info_attrs =
    [description, mac_address, ip_address, subnet_mask, gateway, firmware, hardware]"

definition present_keys :: "pyval \<Rightarrow> nat" where
  "present_keys sys_info =
    length (takeWhile (\<lambda>(key, store). case py_getitem sys_info key of Inr v \<Rightarrow> True | Inl e \<Rightarrow> False)
              sys_info_fields)"






section \<open>Basic facts\<close>

lemma bind_res_Inl [simp]: "bind_res (Inl e) f = Inl e"
  by (simp add: bind_res_def)

lemma bind_res_Inr [simp]: "bind_res (Inr x) f = f x"
  by (simp add: bind_res_def)

lemma bind_res_eq_Inr: "bind_res m f = Inr y \<longleftrightarrow> (\<exists>x. m = Inr x \<and> f x = Inr y)"
  by (cases m) simp_all

lemma bind_res_eq_Inl: "bind_res m f = Inl e \<longleftrightarrow> m = Inl e \<or> (\<exists>x. m = Inr x \<and> f x = Inl e)"
  by (cases m) simp_all

lemma py_index_error: "py_index xs i = Inl e \<Longrightarrow> e = IndexError"
  by (simp add: py_index_def Let_def split: if_splits)

lemma py_index_nat: "py_index xs (int i) = (if i < length xs then Inr (xs ! i) else Inl IndexError)"
  by (simp add: py_index_def Let_def)

lemma py_index_in_range: "0 \<le> i \<Longrightarrow> i < int (length xs) \<Longrightarrow> py_index xs i = Inr (xs ! nat i)"
  by (simp add: py_index_def Let_def)

lemma py_index_Inr_bounds: "py_index xs i = Inr v \<Longrightarrow> - int (length xs) \<le> i \<and> i < int (length xs)"
  by (simp add: py_index_def Let_def split: if_splits)

lemma dict_set_fresh: "k \<notin> fst ` set d \<Longrightarrow> dict_set d k v = d @ [(k, v)]"
  by (induction d) auto

lemma length_dict_set: "length (dict_set d k v) \<le> Suc (length d)"
  by (induction d) auto

lemma py_index_at: "j = int k \<Longrightarrow> k < length xs \<Longrightarrow> py_index xs j = Inr (xs ! k)"
  by (simp add: py_index_nat)

lemma ports_loop_step:
  assumes "i < length st" "0 \<le> st ! i" "st ! i \<le> 1" "i < length ln" "0 \<le> ln ! i" "ln ! i \<le> 7"
    "4 * i + 3 < length pk"
  shows "ports_loop st ln pk (i # rest) acc =
         ports_loop st ln pk rest (dict_set acc (int i + 1) (snd (port_entry st ln pk i)))"
proof -
  have a: "py_index st (int i) = Inr (st ! i)" using assms by (simp add: py_index_nat)
  have b: "py_index state_info (st ! i) = Inr (state_info ! nat (st ! i))"
    using assms by (intro py_index_in_range) (simp_all add: state_info_def)
  have c: "py_index ln (int i) = Inr (ln ! i)" using assms by (simp add: py_index_nat)
  have d: "py_index link_info (ln ! i) = Inr (link_info ! nat (ln ! i))"
    using assms by (intro py_index_in_range) (simp_all add: link_info_def)
  have e: "py_index pk (4 * int i) = Inr (pk ! (4 * i))"
    using assms by (intro py_index_at) simp_all
  have f: "py_index pk (4 * int i + 1) = Inr (pk ! (4 * i + 1))"
    using assms by (intro py_index_at) simp_all
  have g: "py_index pk (4 * int i + 2) = Inr (pk ! (4 * i + 2))"
    using assms by (intro py_index_at) simp_all
  have h: "py_index pk (4 * int i + 3) = Inr (pk ! (4 * i + 3))"
    using assms by (intro py_index_at) simp_all
  show ?thesis
    by (simp only: ports_loop.simps a b c d e f g h bind_res_Inr port_entry_def snd_conv)
qed

lemma ports_loop_ok:
  assumes "\<forall>i\<in>set idxs. i < length st \<and> 0 \<le> st ! i \<and> st ! i \<le> 1 \<and> i < length ln \<and>
             0 \<le> ln ! i \<and> ln ! i \<le> 7 \<and> 4 * i + 3 < length pk"
    and "distinct idxs"
    and "\<forall>i\<in>set idxs. int i + 1 \<notin> fst ` set acc"
  shows "ports_loop st ln pk idxs acc = Inr (acc @ map (port_entry st ln pk) idxs)"
  using assms
proof (induction idxs arbitrary: acc)
  case Nil
  then show ?case by simp
next
  case (Cons i idxs)
  have fresh: "int i + 1 \<notin> fst ` set acc" using Cons.prems(3) by simp
  have "ports_loop st ln pk (i # idxs) acc =
      ports_loop st ln pk idxs (dict_set acc (int i + 1) (snd (port_entry st ln pk i)))"
    using Cons.prems(1) by (intro ports_loop_step) simp_all
  also have "dict_set acc (int i + 1) (snd (port_entry st ln pk i)) = acc @ [port_entry st ln pk i]"
    using fresh by (simp add: dict_set_fresh port_entry_def)
  finally have step: "ports_loop st ln pk (i # idxs) acc =
      ports_loop st ln pk idxs (acc @ [port_entry st ln pk i])" .
  have "\<forall>j\<in>set idxs. int j + 1 \<notin> fst ` set (acc @ [port_entry st ln pk i])"
    using Cons.prems(2,3) by (auto simp: port_entry_def)
  then have "ports_loop st ln pk idxs (acc @ [port_entry st ln pk i]) =
      Inr ((acc @ [port_entry st ln pk i]) @ map (port_entry st ln pk) idxs)"
    using Cons.prems(1,2) by (intro Cons.IH) simp_all
  then show ?case using step by simp
qed

lemma ports_loop_error: "ports_loop st ln pk idxs acc = Inl e \<Longrightarrow> e = IndexError"
proof (induction idxs arbitrary: acc)
  case Nil
  then show ?case by simp
next
  case (Cons i idxs)
  then show ?case
    by (auto simp: bind_res_eq_Inl dest: py_index_error)
qed

lemma ports_loop_visits:
  "ports_loop st ln pk idxs acc = Inr r \<Longrightarrow> i \<in> set idxs \<Longrightarrow>
   (\<exists>s x. py_index st (int i) = Inr s \<and> py_index state_info s = Inr x) \<and>
   (\<exists>v. py_index pk (4 * int i + 3) = Inr v)"
proof (induction idxs arbitrary: acc)
  case Nil
  then show ?case by simp
next
  case (Cons j idxs)
  then show ?case
    by (auto simp: bind_res_eq_Inr)
qed

lemma ports_loop_length:
  "ports_loop st ln pk idxs acc = Inr r \<Longrightarrow> length r \<le> length acc + length idxs"
proof (induction idxs arbitrary: acc)
  case Nil
  then show ?case by simp
next
  case (Cons j idxs)
  from Cons.prems obtain v where "ports_loop st ln pk idxs (dict_set acc (int j + 1) v) = Inr r"
    by (auto simp: bind_res_eq_Inr)
  from Cons.IH [OF this] length_dict_set [of acc "int j + 1" v] show ?case by simp
qed

section \<open>Facts about the extraction steps\<close>

lemma re_search_None_iff: "re_search m t = None \<longleftrightarrow> (\<forall>i\<le>length t. m (drop i t) = None)"
proof (induction t)
  case Nil
  then show ?case by simp
next
  case (Cons c cs)
  have "(\<forall>i\<le>length (c # cs). m (drop i (c # cs)) = None) \<longleftrightarrow>
        m (c # cs) = None \<and> (\<forall>j\<le>length cs. m (drop j cs) = None)"
  proof
    assume a: "\<forall>i\<le>length (c # cs). m (drop i (c # cs)) = None"
    have "m (c # cs) = None" using a [rule_format, of 0] by simp
    moreover have "m (drop j cs) = None" if "j \<le> length cs" for j
      using a [rule_format, of "Suc j"] that by simp
    ultimately show "m (c # cs) = None \<and> (\<forall>j\<le>length cs. m (drop j cs) = None)" by simp
  next
    assume b: "m (c # cs) = None \<and> (\<forall>j\<le>length cs. m (drop j cs) = None)"
    show "\<forall>i\<le>length (c # cs). m (drop i (c # cs)) = None"
    proof (intro allI impI)
      fix i assume "i \<le> length (c # cs)"
      then show "m (drop i (c # cs)) = None" using b by (cases i) simp_all
    qed
  qed
  with Cons.IH show ?case by (simp split: option.splits)
qed

lemma re_search_Some: "re_search m t = Some g \<Longrightarrow> \<exists>i\<le>length t. m (drop i t) = Some g"
proof (induction t)
  case Nil
  then show ?case by simp
next
  case (Cons c cs)
  show ?case
  proof (cases "m (c # cs)")
    case None
    with Cons.prems have "re_search m cs = Some g" by simp
    from Cons.IH [OF this] obtain j where "j \<le> length cs" "m (drop j cs) = Some g" by blast
    then have "Suc j \<le> length (c # cs) \<and> m (drop (Suc j) (c # cs)) = Some g" by simp
    then show ?thesis by blast
  next
    case (Some a)
    with Cons.prems have "m (drop 0 (c # cs)) = Some g" by simp
    then show ?thesis by blast
  qed
qed

lemma match_max_port_num_Some:
  "match_max_port_num s = Some g \<Longrightarrow> \<exists>d. g = [d] \<and> is_digit d"
  by (auto simp: match_max_port_num_def split: option.splits list.splits if_splits)

lemma is_digit_not_space: "is_digit d \<Longrightarrow> \<not> is_int_space d"
  by (simp add: is_digit_def is_int_space_def Let_def)

lemma py_int_digit: "is_digit d \<Longrightarrow> py_int [d] = Inr (digit_val d)"
proof -
  assume d: "is_digit d"
  have sp: "strip_int_space [d] = [d]"
    using is_digit_not_space [OF d] by (simp add: strip_int_space_def)
  have ne: "d \<noteq> CHR ''-''" "d \<noteq> CHR ''+''" using d by (auto simp: is_digit_def)
  show ?thesis
    using d ne by (simp add: py_int_def sp Let_def int_digits_ok_def int_of_digits_def)
qed

lemma digit_val_range: "is_digit d \<Longrightarrow> 0 \<le> digit_val d \<and> digit_val d \<le> 9"
  by (simp add: is_digit_def digit_val_def)

lemma find_max_port_num_range: "find_max_port_num t = Inr n \<Longrightarrow> 0 \<le> n \<and> n \<le> 9"
proof -
  assume a: "find_max_port_num t = Inr n"
  then obtain g where g: "re_search match_max_port_num t = Some g" and n: "py_int g = Inr n"
    by (auto simp: find_max_port_num_def group1_def bind_res_eq_Inr split: option.splits)
  from re_search_Some [OF g] obtain i where "match_max_port_num (drop i t) = Some g" by blast
  from match_max_port_num_Some [OF this] obtain d where d: "g = [d]" "is_digit d" by blast
  with n py_int_digit [OF d(2)] have "n = digit_val d" by simp
  with digit_val_range [OF d(2)] show ?thesis by simp
qed

lemma split_not_Nil: "split c s \<noteq> []"
  by (induction s) auto

lemma map_int_length: "map_int ts = Inr xs \<Longrightarrow> length xs = length ts"
  by (induction ts arbitrary: xs) (auto simp: bind_res_eq_Inr)

lemma map_int_split_not_Nil: "map_int (split c s) = Inr xs \<Longrightarrow> xs \<noteq> []"
  using map_int_length [of "split c s" xs] split_not_Nil [of c s] by auto

lemma find_state_not_Nil: "find_state t = Inr xs \<Longrightarrow> xs \<noteq> []"
  by (auto simp: find_state_def bind_res_eq_Inr dest: map_int_split_not_Nil)

lemma parse_ports_info_eq:
  assumes "find_max_port_num t = Inr n" "find_state t = Inr st" "find_link_status t = Inr ln"
    "find_pkts t = Inr pk"
  shows "parse_ports_info t = ports_loop st ln pk [0 ..< nat n] []"
  using assms by (simp add: parse_ports_info_def)

lemma parse_ports_info_Inr:
  "parse_ports_info t = Inr ps \<Longrightarrow>
   \<exists>n st ln pk. find_max_port_num t = Inr n \<and> find_state t = Inr st \<and>
     find_link_status t = Inr ln \<and> find_pkts t = Inr pk \<and>
     ports_loop st ln pk [0 ..< nat n] [] = Inr ps"
  by (auto simp: parse_ports_info_def bind_res_eq_Inr)

lemma port_count_at_most_9: "parse_ports_info t = Inr ps \<Longrightarrow> length ps \<le> 9"
proof -
  assume "parse_ports_info t = Inr ps"
  from parse_ports_info_Inr [OF this] obtain n st ln pk where
    n: "find_max_port_num t = Inr n" and l: "ports_loop st ln pk [0 ..< nat n] [] = Inr ps"
    by blast
  from ports_loop_length [OF l] find_max_port_num_range [OF n] show ?thesis by auto
qed

lemma max_port_num_not_found:
  assumes "text = pre @ ''var max_port_num = '' @ ds @ '';'' @ post"
    and "2 \<le> length ds" and "list_all is_digit ds"
    and "occurrences ''var max_port_num = '' text = [length pre]"
  shows "re_search match_max_port_num text = None"
proof -
  have "match_max_port_num (drop i text) = None" if i: "i \<le> length text" for i
  proof (cases "prefix ''var max_port_num = '' (drop i text)")
    case True
    with i have "i \<in> set (occurrences ''var max_port_num = '' text)"
      unfolding occurrences_def set_filter set_upt by simp
    with assms(4) have "i = length pre" by simp
    with assms(1) have dr: "drop i text = ''var max_port_num = '' @ ds @ '';'' @ post" by simp
    from assms(2) obtain d1 d2 ds' where ds: "ds = d1 # d2 # ds'"
      by (cases ds; cases "tl ds") auto
    with assms(3) have "is_digit d2" by simp
    then have "d2 \<noteq> CHR '';''" by (auto simp: is_digit_def)
    then show ?thesis
      by (simp add: dr ds match_max_port_num_def strip_prefix_def)
  next
    case False
    then show ?thesis by (simp add: match_max_port_num_def strip_prefix_def)
  qed
  then show ?thesis by (simp add: re_search_None_iff)
qed

lemma new_port_entry:
  "new_port (fst (port_entry st ln pk i)) (snd (port_entry st ln pk i)) =
   Inr \<lparr>port_num = PInt (int i + 1),
        state = PStr (state_info ! nat (st ! i)),
        link_status = PStr (link_info ! nat (ln ! i)),
        txgoodpkt = PInt (pk ! (4 * i)), txbadpkt = PInt (pk ! (4 * i + 1)),
        rxgoodpkt = PInt (pk ! (4 * i + 2)), rxbadpkt = PInt (pk ! (4 * i + 3))\<rparr>"
  by (simp add: new_port_def port_entry_def py_getitem_def SwitchPort_init_def)

section \<open>Facts about the loaders\<close>

lemma dict_set_values: "set (dict_set d k v) \<subseteq> set d \<union> {(k, v)}"
  by (induction d) (auto split: if_splits)

lemma ports_loop_buildable:
  assumes "ports_loop st ln pk idxs acc = Inr r"
    and "\<forall>(k, v)\<in>set acc. \<exists>p. new_port k v = Inr p"
  shows "\<forall>(k, v)\<in>set r. \<exists>p. new_port k v = Inr p"
  using assms
proof (induction idxs arbitrary: acc)
  case Nil
  then show ?case by simp
next
  case (Cons i idxs)
  from Cons.prems(1) obtain s l a b c d where
    rec: "ports_loop st ln pk idxs (dict_set acc (int i + 1)
            (PDict [(''status'', PStr s), (''link-status'', PStr l), (''txgoodpkt'', PInt a),
                    (''txbadpkt'', PInt b), (''rxgoodpkt'', PInt c), (''rxbadpkt'', PInt d)])) = Inr r"
    by (auto simp: bind_res_eq_Inr)
  have new: "\<exists>p. new_port (int i + 1)
            (PDict [(''status'', PStr s), (''link-status'', PStr l), (''txgoodpkt'', PInt a),
                    (''txbadpkt'', PInt b), (''rxgoodpkt'', PInt c), (''rxbadpkt'', PInt d)]) = Inr p"
    by (simp add: new_port_def py_getitem_def)
  have "\<forall>(k, v)\<in>set (dict_set acc (int i + 1)
            (PDict [(''status'', PStr s), (''link-status'', PStr l), (''txgoodpkt'', PInt a),
                    (''txbadpkt'', PInt b), (''rxgoodpkt'', PInt c), (''rxbadpkt'', PInt d)])).
          \<exists>p. new_port k v = Inr p"
    using Cons.prems(2) new dict_set_values [of acc "int i + 1"] by fastforce
  from Cons.IH [OF rec this] show ?case .
qed

lemma parse_ports_info_buildable:
  "parse_ports_info t = Inr ps \<Longrightarrow> \<forall>(k, v)\<in>set ps. \<exists>p. new_port k v = Inr p"
proof -
  assume "parse_ports_info t = Inr ps"
  from parse_ports_info_Inr [OF this] obtain n st ln pk where
    "ports_loop st ln pk [0 ..< nat n] [] = Inr ps" by blast
  from ports_loop_buildable [OF this] show ?thesis by simp
qed

lemma append_ports_ok:
  "map (\<lambda>(k, v). new_port k v) ps = map Inr new \<Longrightarrow>
   append_ports ps sw = (None, sw\<lparr>ports := ports sw @ new\<rparr>)"
proof (induction ps arbitrary: new sw)
  case Nil
  then show ?case by simp
next
  case (Cons a ps)
  obtain k v where a: "a = (k, v)" by (cases a)
  from Cons.prems a obtain p new' where new: "new = p # new'" "new_port k v = Inr p"
    "map (\<lambda>(k, v). new_port k v) ps = map Inr new'"
    by (cases new) auto
  from Cons.IH [OF new(3), of "sw\<lparr>ports := ports sw @ [p]\<rparr>"] show ?case
    by (simp add: a new)
qed

lemma buildable_list:
  "\<forall>(k, v)\<in>set ps. \<exists>p. new_port k v = Inr p \<Longrightarrow>
   \<exists>new. map (\<lambda>(k, v). new_port k v) ps = map Inr new"
proof (induction ps)
  case Nil
  then show ?case by simp
next
  case (Cons a ps)
  then obtain new where n: "map (\<lambda>(k, v). new_port k v) ps = map Inr new" by auto
  obtain k v where a: "a = (k, v)" by (cases a)
  with Cons.prems obtain p where "new_port k v = Inr p" by auto
  with n a have "map (\<lambda>(k, v). new_port k v) (a # ps) = map Inr (p # new)" by simp
  then show ?case by blast
qed

lemma assign_fields_effect:
  assumes "assign_fields sys_info_fields si sw = (r, sw')" and "j = present_keys si"
  shows "(j = 7 \<longrightarrow> r = None) \<and>
    (j < 7 \<longrightarrow> (\<exists>e. r = Some e \<and> py_getitem si (fst (sys_info_fields ! j)) = Inl e)) \<and>
    map (\<lambda>attr. Inr (attr sw')) sys_info_attrs =
      take j (map (\<lambda>(key, store). py_getitem si key) sys_info_fields) @
      drop j (map (\<lambda>attr. Inr (attr sw)) sys_info_attrs) \<and>
    ports sw' = ports sw \<and> port_number sw' = port_number sw"
  using assms
  unfolding sys_info_fields_def sys_info_attrs_def present_keys_def
  by (cases "py_getitem si ''descriStr''"; clarsimp;
      cases "py_getitem si ''macStr''"; clarsimp;
      cases "py_getitem si ''ipStr''"; clarsimp;
      cases "py_getitem si ''netmaskStr''"; clarsimp;
      cases "py_getitem si ''gatewayStr''"; clarsimp;
      cases "py_getitem si ''firmwareStr''"; clarsimp;
      cases "py_getitem si ''hardwareStr''"; clarsimp)

section \<open>Facts about the system-info page\<close>











subsection \<open>The key-quoting substitution\<close>

declare sub_keys.simps(2) [simp del]














subsection \<open>The search for the assignment\<close>








subsection \<open>\<open>parse_system_info\<close> on a system-info page\<close>





section \<open>Properties of \<^verbatim>\<open>parse_ports_info\<close>\<close>

text \<open>
  Claim C7.  On the fixture ports text with \<^verbatim>\<open>var max_port_num = 2;\<close>, \<^verbatim>\<open>state:[1,0],\<close>
  \<^verbatim>\<open>link_status:[5,0],\<close> and \<^verbatim>\<open>pkts:[10,0,20,1,0,0,0,0]\<close>, written as the device's page
  writes the four assignments, \<open>parse_ports_info\<close> returns two entries: port 1 is
  Enabled, 100Full, with counters 10, 0, 20, 1, and port 2 is Disabled, Link Down, with
  all four counters 0.
\<close>

theorem fixture_two_ports:
  "parse_ports_info
     ''var max_port_num = 2; state:[1,0],link_status:[5,0], pkts:[10,0,20,1,0,0,0,0]'' =
   Inr [(1, PDict [(''status'', PStr ''Enabled''), (''link-status'', PStr ''100Full''),
                   (''txgoodpkt'', PInt 10), (''txbadpkt'', PInt 0),
                   (''rxgoodpkt'', PInt 20), (''rxbadpkt'', PInt 1)]),
        (2, PDict [(''status'', PStr ''Disabled''), (''link-status'', PStr ''Link Down''),
                   (''txgoodpkt'', PInt 0), (''txbadpkt'', PInt 0),
                   (''rxgoodpkt'', PInt 0), (''rxbadpkt'', PInt 0)])]"
  by code_simp

text \<open>
  Claim C1, as amended.  Let the port count that the text carries be \<open>N\<close>, let the
  \<^verbatim>\<open>state\<close> and \<^verbatim>\<open>link_status\<close> arrays found in it decode to \<open>N\<close> integers each, all of
  them indices of the lookup tables (0 or 1 for the state, 0 to 7 for the link), and let
  the \<^verbatim>\<open>pkts\<close> array decode to \<open>4 * N\<close> integers.  Then \<open>parse_ports_info\<close> returns \<open>N\<close>
  entries whose keys are the port numbers 1 to \<open>N\<close> in ascending order, and the entry
  at position \<open>i\<close> (port \<open>i + 1\<close>) has the labels of \<open>state[i]\<close> and \<open>link_status[i]\<close> and
  the counters \<open>pkts[4i]\<close>, \<open>pkts[4i+1]\<close>, \<open>pkts[4i+2]\<close>, \<open>pkts[4i+3]\<close>.  Such a text has
  \<open>1 \<le> N \<le> 9\<close>: the pattern of the port count takes one digit, and an empty array does
  not decode.
\<close>

theorem ports_records_from_arrays:
  assumes "find_max_port_num text = Inr (int N)"
    and "find_state text = Inr st" and "find_link_status text = Inr ln"
    and "find_pkts text = Inr pk"
    and "length st = N" and "length ln = N" and "length pk = 4 * N"
    and "list_all (\<lambda>x. 0 \<le> x \<and> x \<le> 1) st" and "list_all (\<lambda>x. 0 \<le> x \<and> x \<le> 7) ln"
  shows "1 \<le> N \<and> N \<le> 9 \<and>
    (\<exists>ps. parse_ports_info text = Inr ps \<and> length ps = N \<and>
       map fst ps = map int [1 ..< Suc N] \<and>
       (\<forall>i<N. snd (ps ! i) =
          PDict [(''status'', PStr (state_info ! nat (st ! i))),
                 (''link-status'', PStr (link_info ! nat (ln ! i))),
                 (''txgoodpkt'', PInt (pk ! (4 * i))), (''txbadpkt'', PInt (pk ! (4 * i + 1))),
                 (''rxgoodpkt'', PInt (pk ! (4 * i + 2))),
                 (''rxbadpkt'', PInt (pk ! (4 * i + 3)))]))"
proof -
  have lo: "1 \<le> N" using find_state_not_Nil [OF assms(2)] assms(5) by (cases st) auto
  have hi: "N \<le> 9" using find_max_port_num_range [OF assms(1)] by simp
  have rng: "\<forall>i\<in>set [0 ..< N]. i < length st \<and> 0 \<le> st ! i \<and> st ! i \<le> 1 \<and> i < length ln \<and>
             0 \<le> ln ! i \<and> ln ! i \<le> 7 \<and> 4 * i + 3 < length pk"
    using assms(5-9) by (auto simp: list_all_length)
  have "ports_loop st ln pk [0 ..< N] [] = Inr ([] @ map (port_entry st ln pk) [0 ..< N])"
    using rng by (intro ports_loop_ok) simp_all
  then have res: "parse_ports_info text = Inr (map (port_entry st ln pk) [0 ..< N])"
    using parse_ports_info_eq [OF assms(1-4)] by simp
  have keys: "map fst (map (port_entry st ln pk) [0 ..< N]) = map int [1 ..< Suc N]"
    by (simp add: port_entry_def map_Suc_upt [symmetric] del: upt_Suc)
  have vals: "\<forall>i<N. snd (map (port_entry st ln pk) [0 ..< N] ! i) =
          PDict [(''status'', PStr (state_info ! nat (st ! i))),
                 (''link-status'', PStr (link_info ! nat (ln ! i))),
                 (''txgoodpkt'', PInt (pk ! (4 * i))), (''txbadpkt'', PInt (pk ! (4 * i + 1))),
                 (''rxgoodpkt'', PInt (pk ! (4 * i + 2))),
                 (''rxbadpkt'', PInt (pk ! (4 * i + 3)))]"
    by (simp add: port_entry_def)
  show ?thesis
    using lo hi res keys vals by simp
qed

text \<open>The theorem at the fixture of two ports.\<close>

theorem ports_records_from_arrays_witness:
  "\<exists>ps. parse_ports_info
     ''var max_port_num = 2; state:[1,0],link_status:[5,0], pkts:[10,0,20,1,0,0,0,0]'' = Inr ps \<and>
     length ps = 2 \<and> map fst ps = [1, 2] \<and>
     snd (ps ! 1) = PDict [(''status'', PStr ''Disabled''), (''link-status'', PStr ''Link Down''),
       (''txgoodpkt'', PInt 0), (''txbadpkt'', PInt 0), (''rxgoodpkt'', PInt 0),
       (''rxbadpkt'', PInt 0)]"
proof -
  let ?t = "''var max_port_num = 2; state:[1,0],link_status:[5,0], pkts:[10,0,20,1,0,0,0,0]''"
  have h1: "find_max_port_num ?t = Inr (int 2)" by code_simp
  have h2: "find_state ?t = Inr [1, 0]" by code_simp
  have h3: "find_link_status ?t = Inr [5, 0]" by code_simp
  have h4: "find_pkts ?t = Inr [10, 0, 20, 1, 0, 0, 0, 0]" by code_simp
  from ports_records_from_arrays [OF h1 h2 h3 h4]
  obtain ps where ps: "parse_ports_info ?t = Inr ps" "length ps = 2"
    "map fst ps = map int [1 ..< Suc 2]"
    "\<forall>i<2. snd (ps ! i) =
          PDict [(''status'', PStr (state_info ! nat ([1, 0] ! i))),
                 (''link-status'', PStr (link_info ! nat ([5, 0] ! i))),
                 (''txgoodpkt'', PInt ([10, 0, 20, 1, 0, 0, 0, 0] ! (4 * i))),
                 (''txbadpkt'', PInt ([10, 0, 20, 1, 0, 0, 0, 0] ! (4 * i + 1))),
                 (''rxgoodpkt'', PInt ([10, 0, 20, 1, 0, 0, 0, 0] ! (4 * i + 2))),
                 (''rxbadpkt'', PInt ([10, 0, 20, 1, 0, 0, 0, 0] ! (4 * i + 3)))]"
    by auto
  from ps(4) have "snd (ps ! 1) = PDict [(''status'', PStr ''Disabled''),
       (''link-status'', PStr ''Link Down''),
       (''txgoodpkt'', PInt 0), (''txbadpkt'', PInt 0), (''rxgoodpkt'', PInt 0),
       (''rxbadpkt'', PInt 0)]"
    by (simp add: state_info_def link_info_def)
  moreover have "map fst ps = [1, 2]" using ps(3) by (simp add: upt_rec)
  ultimately show ?thesis using ps(1,2) by simp
qed

text \<open>
  The claim as stated, for every \<open>N\<close>, fails at both ends: a page of ten ports is
  rejected because \<^verbatim>\<open>10;\<close> does not match \<^verbatim>\<open>(\d);\<close>, and a page of no port is rejected
  because the empty array splits into one empty token, which \<^verbatim>\<open>int\<close> refuses.
\<close>

theorem ports_records_counterexample:
  "parse_ports_info (''var max_port_num = 10; state:[1,1,1,1,1,1,1,1,1,1],'' @
      ''link_status:[0,0,0,0,0,0,0,0,0,0],'' @
      ''pkts:[0,0,0,0,0,0,0,0,0,0,0,0,0,0,0,0,0,0,0,0,0,0,0,0,0,0,0,0,0,0,0,0,0,0,0,0,0,0,0,0]'') =
     Inl AttributeError \<and>
   parse_ports_info ''var max_port_num = 0; state:[],link_status:[],pkts:[]'' = Inl ValueError"
proof -
  have "find_max_port_num (''var max_port_num = 10; state:[1,1,1,1,1,1,1,1,1,1],'' @
      ''link_status:[0,0,0,0,0,0,0,0,0,0],'' @
      ''pkts:[0,0,0,0,0,0,0,0,0,0,0,0,0,0,0,0,0,0,0,0,0,0,0,0,0,0,0,0,0,0,0,0,0,0,0,0,0,0,0,0]'') =
     Inl AttributeError"
    by code_simp
  then have ten: "parse_ports_info (''var max_port_num = 10; state:[1,1,1,1,1,1,1,1,1,1],'' @
      ''link_status:[0,0,0,0,0,0,0,0,0,0],'' @
      ''pkts:[0,0,0,0,0,0,0,0,0,0,0,0,0,0,0,0,0,0,0,0,0,0,0,0,0,0,0,0,0,0,0,0,0,0,0,0,0,0,0,0]'') =
     Inl AttributeError"
    by (simp only: parse_ports_info_def bind_res_Inl)
  have zero: "parse_ports_info ''var max_port_num = 0; state:[],link_status:[],pkts:[]'' =
      Inl ValueError"
    by code_simp
  from ten zero show ?thesis by (rule conjI)
qed

text \<open>
  Claim C2, as amended.  When the four patterns are found and decode, and for some
  \<open>i\<close> below the port count \<open>state[i]\<close> exists and is at least 2 or at most -3,
  \<open>parse_ports_info\<close> fails with \<^verbatim>\<open>IndexError\<close>.  (The values -1 and -2 are not refused:
  Python counts a negative index from the end of the list.)
\<close>

theorem state_out_of_range_fails:
  assumes "find_max_port_num text = Inr n"
    and "find_state text = Inr st" and "find_link_status text = Inr ln"
    and "find_pkts text = Inr pk"
    and "int i < n" and "i < length st" and "st ! i < - 2 \<or> 1 < st ! i"
  shows "parse_ports_info text = Inl IndexError"
proof (cases "ports_loop st ln pk [0 ..< nat n] []")
  case (Inl e)
  with ports_loop_error [OF Inl] parse_ports_info_eq [OF assms(1-4)] show ?thesis by simp
next
  case (Inr r)
  have "i \<in> set [0 ..< nat n]" using assms(5) by simp
  from ports_loop_visits [OF Inr this] obtain s x where
    s: "py_index st (int i) = Inr s" and x: "py_index state_info s = Inr x" by blast
  from s assms(6) have "s = st ! i" by (simp add: py_index_nat)
  with py_index_Inr_bounds [OF x] have "- 2 \<le> st ! i \<and> st ! i < 2" by (simp add: state_info_def)
  with assms(7) show ?thesis by simp
qed

text \<open>The theorem at a page whose only state is 2.\<close>

theorem state_out_of_range_fails_witness:
  "parse_ports_info ''var max_port_num = 1; state:[2],link_status:[0],pkts:[0,0,0,0]'' =
     Inl IndexError"
proof -
  let ?t = "''var max_port_num = 1; state:[2],link_status:[0],pkts:[0,0,0,0]''"
  have h1: "find_max_port_num ?t = Inr 1" by code_simp
  have h2: "find_state ?t = Inr [2]" by code_simp
  have h3: "find_link_status ?t = Inr [0]" by code_simp
  have h4: "find_pkts ?t = Inr [0, 0, 0, 0]" by code_simp
  show ?thesis
    by (rule state_out_of_range_fails [OF h1 h2 h3 h4, of 0]) simp_all
qed

text \<open>
  The claim as stated fails for the state -1: \<^verbatim>\<open>state_info[-1]\<close> is the last label,
  so the port is reported as Enabled.
\<close>

theorem negative_state_counterexample:
  "parse_ports_info ''var max_port_num = 1; state:[-1],link_status:[0],pkts:[0,0,0,0]'' =
     Inr [(1, PDict [(''status'', PStr ''Enabled''), (''link-status'', PStr ''Link Down''),
                     (''txgoodpkt'', PInt 0), (''txbadpkt'', PInt 0),
                     (''rxgoodpkt'', PInt 0), (''rxbadpkt'', PInt 0)])]"
  by code_simp

text \<open>
  Claim C6, as amended.  When the four patterns are found and decode, and the \<^verbatim>\<open>pkts\<close>
  array has fewer than four entries for each port of the port count,
  \<open>parse_ports_info\<close> fails with \<^verbatim>\<open>IndexError\<close>; no list of ports is returned.  (An array
  that decodes has at least one entry.)
\<close>

theorem short_pkts_fails:
  assumes "find_max_port_num text = Inr n"
    and "find_state text = Inr st" and "find_link_status text = Inr ln"
    and "find_pkts text = Inr pk"
    and "int (length pk) < 4 * n"
  shows "parse_ports_info text = Inl IndexError"
proof (cases "ports_loop st ln pk [0 ..< nat n] []")
  case (Inl e)
  with ports_loop_error [OF Inl] parse_ports_info_eq [OF assms(1-4)] show ?thesis by simp
next
  case (Inr r)
  have pos: "0 < n" using assms(5) by simp
  then have "nat n - 1 \<in> set [0 ..< nat n]" by simp
  from ports_loop_visits [OF Inr this] obtain v where
    "py_index pk (4 * int (nat n - 1) + 3) = Inr v" by blast
  from py_index_Inr_bounds [OF this] pos have "4 * n \<le> int (length pk)" by simp
  with assms(5) show ?thesis by simp
qed

text \<open>The theorem at a page of two ports with four counters.\<close>

theorem short_pkts_fails_witness:
  "parse_ports_info ''var max_port_num = 2; state:[1,0],link_status:[5,0],pkts:[10,0,20,1]'' =
     Inl IndexError"
proof -
  let ?t = "''var max_port_num = 2; state:[1,0],link_status:[5,0],pkts:[10,0,20,1]''"
  have h1: "find_max_port_num ?t = Inr 2" by code_simp
  have h2: "find_state ?t = Inr [1, 0]" by code_simp
  have h3: "find_link_status ?t = Inr [5, 0]" by code_simp
  have h4: "find_pkts ?t = Inr [10, 0, 20, 1]" by code_simp
  show ?thesis
    by (rule short_pkts_fails [OF h1 h2 h3 h4]) simp
qed

text \<open>
  The claim as stated fails for the empty array \<^verbatim>\<open>pkts:[]\<close>: it has fewer than four
  entries, and the parse fails, but with the \<^verbatim>\<open>ValueError\<close> of a malformed literal, since
  the empty text splits into one empty token.
\<close>

theorem empty_pkts_counterexample:
  "parse_ports_info ''var max_port_num = 1; state:[1],link_status:[0],pkts:[]'' = Inl ValueError"
  by code_simp

text \<open>
  Claim C10.  The port-count pattern \<^verbatim>\<open>var max_port_num = (\d);\<close> takes one digit.  When
  the only \<^verbatim>\<open>var max_port_num = \<close> of the text is followed by two or more digits and a
  semicolon, the search finds nothing and \<open>parse_ports_info\<close> fails with the
  \<^verbatim>\<open>AttributeError\<close> of a pattern that is not found; and whatever the text, a parse that
  succeeds returns at most 9 ports.
\<close>

theorem single_digit_port_count:
  assumes "text = pre @ ''var max_port_num = '' @ ds @ '';'' @ post"
    and "2 \<le> length ds" and "list_all is_digit ds"
    and "occurrences ''var max_port_num = '' text = [length pre]"
  shows "parse_ports_info text = Inl AttributeError \<and>
         (\<forall>t ps. parse_ports_info t = Inr ps \<longrightarrow> length ps \<le> 9)"
proof -
  have "re_search match_max_port_num text = None"
    using assms by (rule max_port_num_not_found)
  then have "parse_ports_info text = Inl AttributeError"
    by (simp add: parse_ports_info_def find_max_port_num_def group1_def)
  then show ?thesis using port_count_at_most_9 by blast
qed

theorem single_digit_port_count_witness:
  "parse_ports_info ''var max_port_num = 16; state:[1],link_status:[0],pkts:[0,0,0,0]'' =
     Inl AttributeError"
proof -
  have h1: "''var max_port_num = 16; state:[1],link_status:[0],pkts:[0,0,0,0]'' =
     [] @ ''var max_port_num = '' @ ''16'' @ '';'' @ '' state:[1],link_status:[0],pkts:[0,0,0,0]''"
    by simp
  have h2: "2 \<le> length ''16''" by simp
  have h3: "list_all is_digit ''16''" by (simp add: is_digit_def)
  have h4: "occurrences ''var max_port_num = ''
      ''var max_port_num = 16; state:[1],link_status:[0],pkts:[0,0,0,0]'' = [length ([] :: string)]"
    by code_simp
  from single_digit_port_count [OF h1 h2 h3 h4] show ?thesis by simp
qed

section \<open>The claims about \<^verbatim>\<open>SwitchTPLDAO\<close>\<close>

text \<open>
  Claim C5.  When the POST to \<^verbatim>\<open>{url}logon.cgi\<close> with the fields \<^verbatim>\<open>username\<close>, \<^verbatim>\<open>password\<close>
  and \<^verbatim>\<open>logon=Login\<close> is answered, \<open>logon\<close> returns the session if and only if the status
  code of the response is 200, and for any other status it raises the exception that
  carries that status code; the body of the response plays no part.
\<close>

theorem logon_status_200:
  assumes "url self = Some u"
    and "session_post net (u @ ''logon.cgi'')
           [(''username'', username self), (''password'', password self),
            (''logon'', Some ''Login'')] = Inr (resp, sess)"
  shows "(logon net self = Inr sess \<longleftrightarrow> status_code resp = 200) \<and>
         (status_code resp \<noteq> 200 \<longrightarrow> logon net self = Inl (LoginFailed (status_code resp)))"
  using assms by (simp add: logon_def str_add_def)

text \<open>The theorem at a device that answers 403.\<close>

theorem logon_status_200_witness:
  "logon \<lparr>session_post = (\<lambda>u d. Inr (\<lparr>status_code = 403, body_text = ''Forbidden''\<rparr>, ())),
          session_get = (\<lambda>s u. Inl RequestException)\<rparr>
     (SwitchTPLDAO_init\<lparr>url := Some ''http://192.168.0.1/''\<rparr>) = Inl (LoginFailed 403)"
proof -
  let ?net = "\<lparr>session_post = (\<lambda>u d. Inr (\<lparr>status_code = 403, body_text = ''Forbidden''\<rparr>, ())),
          session_get = (\<lambda>s u. Inl RequestException)\<rparr>"
  let ?dao = "SwitchTPLDAO_init\<lparr>url := Some ''http://192.168.0.1/''\<rparr>"
  have h1: "url ?dao = Some ''http://192.168.0.1/''" by simp
  have h2: "session_post ?net (''http://192.168.0.1/'' @ ''logon.cgi'')
           [(''username'', username ?dao), (''password'', password ?dao),
            (''logon'', Some ''Login'')] = Inr (\<lparr>status_code = 403, body_text = ''Forbidden''\<rparr>, ())"
    by simp
  from logon_status_200 [OF h1 h2] show ?thesis by simp
qed

text \<open>
  Claim C4.  \<open>ports_info_loader\<close> replaces the port list as a whole.  When the fetch of
  the ports page or its parse raises, the object is returned exactly as it was; when
  both succeed the call returns normally, the port list is the list of the ports built
  from all parsed entries, in their order, and nothing else of the object has changed.
  No third outcome exists, so the list is never left partly filled.
\<close>

theorem ports_info_loader_atomic:
  assumes "fetch = bind_res (str_add (url self) ''PortStatisticsRpm.htm'') (session_get net session)"
    and "result = ports_info_loader net self session"
  shows "(\<forall>e. fetch = Inl e \<longrightarrow> result = (Some e, self)) \<and>
    (\<forall>resp e. fetch = Inr resp \<and> parse_ports_info (body_text resp) = Inl e \<longrightarrow>
       result = (Some e, self)) \<and>
    (\<forall>resp ports_info. fetch = Inr resp \<and> parse_ports_info (body_text resp) = Inr ports_info \<longrightarrow>
       (\<exists>new. result = (None, self\<lparr>switch := (switch self)\<lparr>ports := new\<rparr>\<rparr>) \<and>
              map Inr new = map (\<lambda>(port_id, port_data). new_port port_id port_data) ports_info))"
proof (intro conjI allI impI)
  fix e assume "fetch = Inl e"
  then have "bind_res (str_add (url self) ''PortStatisticsRpm.htm'') (session_get net session) = Inl e"
    unfolding assms(1) .
  then show "result = (Some e, self)"
    unfolding assms(2) ports_info_loader_def by simp
next
  fix resp e assume a: "fetch = Inr resp \<and> parse_ports_info (body_text resp) = Inl e"
  then have "bind_res (str_add (url self) ''PortStatisticsRpm.htm'') (session_get net session) = Inr resp"
    unfolding assms(1) by simp
  then show "result = (Some e, self)"
    unfolding assms(2) ports_info_loader_def using a by simp
next
  fix resp ports_info
  assume a: "fetch = Inr resp \<and> parse_ports_info (body_text resp) = Inr ports_info"
  then have f: "bind_res (str_add (url self) ''PortStatisticsRpm.htm'') (session_get net session) = Inr resp"
    unfolding assms(1) by simp
  from a have p: "parse_ports_info (body_text resp) = Inr ports_info" by simp
  from buildable_list [OF parse_ports_info_buildable [OF p]] obtain new where
    new: "map (\<lambda>(k, v). new_port k v) ports_info = map Inr new" by blast
  have ap: "append_ports ports_info ((switch self)\<lparr>ports := []\<rparr>) =
        (None, (switch self)\<lparr>ports := new\<rparr>)"
    using append_ports_ok [OF new, of "(switch self)\<lparr>ports := []\<rparr>"] by simp
  have "result = (None, self\<lparr>switch := (switch self)\<lparr>ports := new\<rparr>\<rparr>)"
    unfolding assms(2) ports_info_loader_def by (simp add: f p ap)
  with new show "\<exists>new. result = (None, self\<lparr>switch := (switch self)\<lparr>ports := new\<rparr>\<rparr>) \<and>
      map Inr new = map (\<lambda>(port_id, port_data). new_port port_id port_data) ports_info"
    by auto
qed

text \<open>The theorem at a device that serves a page of one port.\<close>

theorem ports_info_loader_atomic_witness:
  "ports_info_loader
     \<lparr>session_post = (\<lambda>u d. Inl RequestException),
      session_get = (\<lambda>s u. Inr \<lparr>status_code = 200,
         body_text = ''var max_port_num = 1; state:[1],link_status:[6],pkts:[7,0,9,0]''\<rparr>)\<rparr>
     (SwitchTPLDAO_init\<lparr>url := Some ''http://192.168.0.1/''\<rparr>) () =
   (None, SwitchTPLDAO_init\<lparr>url := Some ''http://192.168.0.1/'',
      switch := SwitchTPL_init\<lparr>ports :=
        [\<lparr>port_num = PInt 1, state = PStr ''Enabled'', link_status = PStr ''1000Full'',
          txgoodpkt = PInt 7, txbadpkt = PInt 0, rxgoodpkt = PInt 9, rxbadpkt = PInt 0\<rparr>]\<rparr>\<rparr>)"
proof -
  let ?page = "''var max_port_num = 1; state:[1],link_status:[6],pkts:[7,0,9,0]''"
  let ?resp = "\<lparr>status_code = 200, body_text = ?page\<rparr>"
  let ?net = "\<lparr>session_post = (\<lambda>u d. Inl RequestException) ::
                  string \<Rightarrow> (string \<times> string option) list \<Rightarrow> error + (response \<times> unit),
               session_get = (\<lambda>s u. Inr ?resp)\<rparr>"
  let ?dao = "SwitchTPLDAO_init\<lparr>url := Some ''http://192.168.0.1/''\<rparr>"
  have p: "parse_ports_info ?page =
      Inr [(1, PDict [(''status'', PStr ''Enabled''), (''link-status'', PStr ''1000Full''),
                      (''txgoodpkt'', PInt 7), (''txbadpkt'', PInt 0),
                      (''rxgoodpkt'', PInt 9), (''rxbadpkt'', PInt 0)])]"
    by code_simp
  have f: "bind_res (str_add (url ?dao) ''PortStatisticsRpm.htm'') (session_get ?net ()) = Inr ?resp"
    by (simp add: str_add_def)
  from ports_info_loader_atomic [where net = ?net and self = ?dao and session = "()", OF refl refl] f p
  obtain new where new: "ports_info_loader ?net ?dao () =
      (None, ?dao\<lparr>switch := (switch ?dao)\<lparr>ports := new\<rparr>\<rparr>)"
    "map Inr new = map (\<lambda>(port_id, port_data). new_port port_id port_data)
       [(1, PDict [(''status'', PStr ''Enabled''), (''link-status'', PStr ''1000Full''),
                   (''txgoodpkt'', PInt 7), (''txbadpkt'', PInt 0),
                   (''rxgoodpkt'', PInt 9), (''rxbadpkt'', PInt 0)])]"
    by auto
  from new(2) have "new =
      [\<lparr>port_num = PInt 1, state = PStr ''Enabled'', link_status = PStr ''1000Full'',
          txgoodpkt = PInt 7, txbadpkt = PInt 0, rxgoodpkt = PInt 9, rxbadpkt = PInt 0\<rparr>]"
    by (cases new) (auto simp: new_port_def py_getitem_def SwitchPort_init_def)
  with new(1) show ?thesis by (simp add: SwitchTPLDAO_init_def)
qed

text \<open>
  Claim C3, as amended.  When the fetch of the system-info page or its parse raises,
  \<open>sys_info_loader\<close> returns the object exactly as it was.  The parse errors meant are
  those of the code, \<^verbatim>\<open>AttributeError\<close> of the search and \<^verbatim>\<open>JSONDecodeError\<close> of the
  decoder: \<open>OutOfModel\<close> marks a page that the decoder of this theory does not follow (a
  \<^verbatim>\<open>float\<close> member, a code point above 255), on which \<^verbatim>\<open>json.loads\<close> may well succeed,
  and nothing is stated about such a page.  When the page parses, the
  seven attributes are assigned one after the other: with \<open>j\<close> the number of leading
  keys, in the order \<^verbatim>\<open>descriStr\<close>, \<^verbatim>\<open>macStr\<close>, \<^verbatim>\<open>ipStr\<close>, \<^verbatim>\<open>netmaskStr\<close>, \<^verbatim>\<open>gatewayStr\<close>,
  \<^verbatim>\<open>firmwareStr\<close>, \<^verbatim>\<open>hardwareStr\<close>, that the parsed mapping holds, the first \<open>j\<close>
  attributes have the values of their keys, the others keep their old values, and
  nothing else of the object changes; the call returns normally when \<open>j = 7\<close> and raises
  the error of the first missing key otherwise.  The seven fields are replaced together
  only when all seven keys are present.
\<close>

theorem sys_info_loader_effect:
  assumes "fetch = bind_res (str_add (url self) ''SystemInfoRpm.htm'') (session_get net session)"
    and "result = sys_info_loader net self session"
  shows "(\<forall>e. fetch = Inl e \<longrightarrow> result = (Some e, self)) \<and>
    (\<forall>resp e. fetch = Inr resp \<and> parse_system_info (body_text resp) = Inl e \<and>
       e \<noteq> OutOfModel \<longrightarrow> result = (Some e, self)) \<and>
    (\<forall>resp sys_info j.
       fetch = Inr resp \<and> parse_system_info (body_text resp) = Inr sys_info \<and>
       j = present_keys sys_info \<longrightarrow>
       (j = 7 \<longrightarrow> fst result = None) \<and>
       (j < 7 \<longrightarrow>
          (\<exists>e. fst result = Some e \<and> py_getitem sys_info (fst (sys_info_fields ! j)) = Inl e)) \<and>
       map (\<lambda>attr. Inr (attr (switch (snd result)))) sys_info_attrs =
         take j (map (\<lambda>(key, store). py_getitem sys_info key) sys_info_fields) @
         drop j (map (\<lambda>attr. Inr (attr (switch self))) sys_info_attrs) \<and>
       ports (switch (snd result)) = ports (switch self) \<and>
       port_number (switch (snd result)) = port_number (switch self) \<and>
       snd result = self\<lparr>switch := switch (snd result)\<rparr>)"
proof (intro conjI allI impI)
  fix e assume "fetch = Inl e"
  then have "bind_res (str_add (url self) ''SystemInfoRpm.htm'') (session_get net session) = Inl e"
    unfolding assms(1) .
  then show "result = (Some e, self)"
    unfolding assms(2) sys_info_loader_def by simp
next
  fix resp e assume a: "fetch = Inr resp \<and> parse_system_info (body_text resp) = Inl e \<and>
       e \<noteq> OutOfModel"
  then have "bind_res (str_add (url self) ''SystemInfoRpm.htm'') (session_get net session) = Inr resp"
    unfolding assms(1) by simp
  then show "result = (Some e, self)"
    unfolding assms(2) sys_info_loader_def using a by simp
next
  fix resp sys_info j
  assume a: "fetch = Inr resp \<and> parse_system_info (body_text resp) = Inr sys_info \<and>
       j = present_keys sys_info"
  then have f: "bind_res (str_add (url self) ''SystemInfoRpm.htm'') (session_get net session) = Inr resp"
    unfolding assms(1) by simp
  from a have p: "parse_system_info (body_text resp) = Inr sys_info" by simp
  from a have j: "j = present_keys sys_info" by simp
  obtain r sw' where as: "assign_fields sys_info_fields sys_info (switch self) = (r, sw')"
    by (cases "assign_fields sys_info_fields sys_info (switch self)")
  have res: "result = (r, self\<lparr>switch := sw'\<rparr>)"
    unfolding assms(2) sys_info_loader_def by (simp add: f p as)
  note eff = assign_fields_effect [OF as j]
  show "j = 7 \<Longrightarrow> fst result = None" using eff res by simp
  show "j < 7 \<Longrightarrow>
      \<exists>e. fst result = Some e \<and> py_getitem sys_info (fst (sys_info_fields ! j)) = Inl e"
    using eff res by simp
  show "map (\<lambda>attr. Inr (attr (switch (snd result)))) sys_info_attrs =
         take j (map (\<lambda>(key, store). py_getitem sys_info key) sys_info_fields) @
         drop j (map (\<lambda>attr. Inr (attr (switch self))) sys_info_attrs)"
    using eff res by simp
  show "ports (switch (snd result)) = ports (switch self)" using eff res by simp
  show "port_number (switch (snd result)) = port_number (switch self)" using eff res by simp
  show "snd result = self\<lparr>switch := switch (snd result)\<rparr>" using res by simp
qed

text \<open>The theorem at a device that serves its login page instead of the system page.\<close>

theorem sys_info_loader_effect_witness:
  \<open>sys_info_loader
     \<lparr>session_post = (\<lambda>u d. Inl RequestException),
      session_get = (\<lambda>s u. Inr \<lparr>status_code = 200, body_text = ''<html>Login</html>''\<rparr>)\<rparr>
     (SwitchTPLDAO_init\<lparr>url := Some ''http://192.168.0.1/'',
        switch := SwitchTPL_init\<lparr>description := PStr ''SW1''\<rparr>\<rparr>) () =
   (Some AttributeError,
    SwitchTPLDAO_init\<lparr>url := Some ''http://192.168.0.1/'',
        switch := SwitchTPL_init\<lparr>description := PStr ''SW1''\<rparr>\<rparr>)\<close>
proof -
  let ?resp = "\<lparr>status_code = 200, body_text = ''<html>Login</html>''\<rparr>"
  let ?net = "\<lparr>session_post = (\<lambda>u d. Inl RequestException) ::
                  string \<Rightarrow> (string \<times> string option) list \<Rightarrow> error + (response \<times> unit),
               session_get = (\<lambda>s u. Inr ?resp)\<rparr>"
  let ?dao = "SwitchTPLDAO_init\<lparr>url := Some ''http://192.168.0.1/'',
        switch := SwitchTPL_init\<lparr>description := PStr ''SW1''\<rparr>\<rparr>"
  have p: "parse_system_info ''<html>Login</html>'' = Inl AttributeError"
    by code_simp
  have f: "bind_res (str_add (url ?dao) ''SystemInfoRpm.htm'') (session_get ?net ()) = Inr ?resp"
    by (simp add: str_add_def)
  from sys_info_loader_effect [where net = ?net and self = ?dao and session = "()", OF refl refl]
  have "\<forall>resp e. bind_res (str_add (url ?dao) ''SystemInfoRpm.htm'') (session_get ?net ()) = Inr resp \<and>
      parse_system_info (body_text resp) = Inl e \<and> e \<noteq> OutOfModel \<longrightarrow>
      sys_info_loader ?net ?dao () = (Some e, ?dao)"
    by blast
  with f p show ?thesis by simp
qed

text \<open>
  The claim as stated fails when a key is missing: on a page that has \<^verbatim>\<open>descriStr\<close> and
  no \<^verbatim>\<open>macStr\<close> the call raises \<^verbatim>\<open>KeyError\<close> after it has overwritten the description.
\<close>

theorem partial_update_counterexample:
  \<open>fst (sys_info_loader
     \<lparr>session_post = (\<lambda>u d. Inl RequestException),
      session_get = (\<lambda>s u. Inr \<lparr>status_code = 200,
         body_text = ''var info_ds = {\<newline>descriStr:"SW2"\<newline>};''\<rparr>)\<rparr>
     (SwitchTPLDAO_init\<lparr>url := Some ''http://192.168.0.1/'',
        switch := SwitchTPL_init\<lparr>description := PStr ''SW1''\<rparr>\<rparr>) ()) = Some (KeyError ''macStr'') \<and>
   description (switch (snd (sys_info_loader
     \<lparr>session_post = (\<lambda>u d. Inl RequestException),
      session_get = (\<lambda>s u. Inr \<lparr>status_code = 200,
         body_text = ''var info_ds = {\<newline>descriStr:"SW2"\<newline>};''\<rparr>)\<rparr>
     (SwitchTPLDAO_init\<lparr>url := Some ''http://192.168.0.1/'',
        switch := SwitchTPL_init\<lparr>description := PStr ''SW1''\<rparr>\<rparr>) ()))) = PStr ''SW2''\<close>
proof -
  have p: \<open>parse_system_info ''var info_ds = {\<newline>descriStr:"SW2"\<newline>};'' =
      Inr (PDict [(''descriStr'', PStr ''SW2'')])\<close>
    by code_simp
  show ?thesis
    by (simp add: sys_info_loader_def str_add_def p sys_info_fields_def py_getitem_def
        SwitchTPLDAO_init_def)
qed



end
